theory Spec2Isabelle
  imports Main "HOL-Library.Word"
begin

section \<open>Data model\<close>

text \<open>
  Go's \<open>uint\<close> and \<open>uint64\<close> are 64-bit words (the 64-bit platforms the program is built
  for), \<open>int\<close> values that stay far from the 64-bit bounds are modelled as \<open>int\<close>, a
  \<open>[]byte\<close> is a list of 8-bit words.
\<close>

type_synonym byte = "8 word"
type_synonym bytes = "byte list"
type_synonym go_uint = "64 word"
type_synonym go_uint64 = "64 word"

text \<open>
  Modelled from the spec: the declarations of \<open>Chunk\<close>, of its \<open>Compressed\<close> and
  \<open>Encrypted\<close> enumerations, of \<open>ItemData\<close> and of \<open>Repository\<close> are not among the
  sources. The fields are the ones the sources read, with the types their uses there
  force (\<open>DataParts\<close> is passed as a \<open>uint\<close>, \<open>OriginalSize\<close> is added to an \<open>int\<close>,
  \<open>Size\<close> is handed to \<open>Join\<close> as an \<open>int\<close>, \<open>Num\<close> is compared with a \<open>uint\<close>).
\<close>

datatype Compression = CompressionNone | CompressionGZip

datatype Encryption = EncryptionNone | EncryptionAES

record Chunk =
  Data :: "bytes list"
  DataParts :: go_uint
  ParityParts :: go_uint
  OriginalSize :: int
  Size :: int
  DecryptedShaSum :: string
  ShaSum :: string
  Encrypted :: Encryption
  Compressed :: Compression
  Num :: go_uint

datatype ItemType = File | Directory | SymLink

record ItemData =
  Path :: string
  Type :: ItemType
  Chunks :: "Chunk list"

text \<open>
  The error values of the program. \<open>External\<close> stands for an error that comes out of a
  package the program imports (the Dropbox client, gzip, the cipher, the Reed-Solomon
  codec, the operating system), carried as its message.
\<close>

datatype error =
    ErrLoadChunkFailed
  | ErrLoadSnapshotFailed
  | ErrLoadRepositoryFailed
  | ErrRepositoryExists
  | ErrRedundancyAmount
  | EOF
  | ChunkError go_uint
  | SeekError int
  | CheckSumError string string string
  | DataReconstructionError Chunk go_uint go_uint
  | External string

section \<open>The backend contract\<close>

text \<open>
  \<open>Backend\<close> is an interface. A backend is modelled by its state \<open>'s\<close>; the methods of
  the interface are the fields of \<open>backend_ops\<close>, each taking the state of the backend it
  is called on. The loads read the state, the stores and saves return the new state
  next to their result.
\<close>

record 's backend_ops =
  be_LoadChunk :: "'s \<Rightarrow> string \<Rightarrow> go_uint \<Rightarrow> go_uint \<Rightarrow> error + bytes"
  be_StoreChunk :: "'s \<Rightarrow> string \<Rightarrow> go_uint \<Rightarrow> go_uint \<Rightarrow> bytes \<Rightarrow> (error + go_uint64) \<times> 's"
  be_LoadSnapshot :: "'s \<Rightarrow> string \<Rightarrow> error + bytes"
  be_SaveSnapshot :: "'s \<Rightarrow> string \<Rightarrow> bytes \<Rightarrow> error option \<times> 's"
  be_InitRepository :: "'s \<Rightarrow> error option \<times> 's"
  be_LoadRepository :: "'s \<Rightarrow> error + bytes"
  be_SaveRepository :: "'s \<Rightarrow> bytes \<Rightarrow> error option \<times> 's"

section \<open>BackendManager (backendmanager.go)\<close>

record 's BackendManager =
  Backends :: "'s list"
  lastUsedBackend :: int

definition AddBackend :: "'s BackendManager \<Rightarrow> 's \<Rightarrow> 's BackendManager" where
  "AddBackend backend be = backend\<lparr>Backends := Backends backend @ [be]\<rparr>"

subsection \<open>Loads: the first backend that answers\<close>

fun LoadChunk_range :: "'s backend_ops \<Rightarrow> 's list \<Rightarrow> Chunk \<Rightarrow> go_uint \<Rightarrow> error + bytes" where
  "LoadChunk_range drv [] chunk part = Inl ErrLoadChunkFailed"
| "LoadChunk_range drv (be # rest) chunk part =
     (case be_LoadChunk drv be (ShaSum chunk) part (DataParts chunk) of
        Inr b \<Rightarrow> Inr b
      | Inl err \<Rightarrow> LoadChunk_range drv rest chunk part)"

definition LoadChunk :: "'s backend_ops \<Rightarrow> 's BackendManager \<Rightarrow> Chunk \<Rightarrow> go_uint \<Rightarrow> error + bytes" where
  "LoadChunk drv backend chunk part = LoadChunk_range drv (Backends backend) chunk part"

fun LoadSnapshot_range :: "'s backend_ops \<Rightarrow> 's list \<Rightarrow> string \<Rightarrow> error + bytes" where
  "LoadSnapshot_range drv [] ident = Inl ErrLoadSnapshotFailed"
| "LoadSnapshot_range drv (be # rest) ident =
     (case be_LoadSnapshot drv be ident of
        Inr b \<Rightarrow> Inr b
      | Inl err \<Rightarrow> LoadSnapshot_range drv rest ident)"

definition LoadSnapshot :: "'s backend_ops \<Rightarrow> 's BackendManager \<Rightarrow> string \<Rightarrow> error + bytes" where
  "LoadSnapshot drv backend ident = LoadSnapshot_range drv (Backends backend) ident"

fun LoadRepository_range :: "'s backend_ops \<Rightarrow> 's list \<Rightarrow> error + bytes" where
  "LoadRepository_range drv [] = Inl ErrLoadRepositoryFailed"
| "LoadRepository_range drv (be # rest) =
     (case be_LoadRepository drv be of
        Inr b \<Rightarrow> Inr b
      | Inl err \<Rightarrow> LoadRepository_range drv rest)"

definition LoadRepository :: "'s backend_ops \<Rightarrow> 's BackendManager \<Rightarrow> error + bytes" where
  "LoadRepository drv backend = LoadRepository_range drv (Backends backend)"

subsection \<open>Saves: every backend, until one fails\<close>

fun SaveSnapshot_range :: "'s backend_ops \<Rightarrow> 's list \<Rightarrow> string \<Rightarrow> bytes \<Rightarrow> error option \<times> 's list" where
  "SaveSnapshot_range drv [] ident b = (None, [])"
| "SaveSnapshot_range drv (be # rest) ident b =
     (case be_SaveSnapshot drv be ident b of
        (Some err, be') \<Rightarrow> (Some err, be' # rest)
      | (None, be') \<Rightarrow>
          (case SaveSnapshot_range drv rest ident b of (r, rest') \<Rightarrow> (r, be' # rest')))"

definition SaveSnapshot ::
  "'s backend_ops \<Rightarrow> 's BackendManager \<Rightarrow> string \<Rightarrow> bytes \<Rightarrow> error option \<times> 's BackendManager" where
  "SaveSnapshot drv backend ident b =
     (case SaveSnapshot_range drv (Backends backend) ident b of
        (r, bs) \<Rightarrow> (r, backend\<lparr>Backends := bs\<rparr>))"

fun InitRepository_range :: "'s backend_ops \<Rightarrow> 's list \<Rightarrow> error option \<times> 's list" where
  "InitRepository_range drv [] = (None, [])"
| "InitRepository_range drv (be # rest) =
     (case be_InitRepository drv be of
        (Some err, be') \<Rightarrow> (Some err, be' # rest)
      | (None, be') \<Rightarrow>
          (case InitRepository_range drv rest of (r, rest') \<Rightarrow> (r, be' # rest')))"

definition InitRepository ::
  "'s backend_ops \<Rightarrow> 's BackendManager \<Rightarrow> error option \<times> 's BackendManager" where
  "InitRepository drv backend =
     (case InitRepository_range drv (Backends backend) of
        (r, bs) \<Rightarrow> (r, backend\<lparr>Backends := bs\<rparr>))"

fun SaveRepository_range :: "'s backend_ops \<Rightarrow> 's list \<Rightarrow> bytes \<Rightarrow> error option \<times> 's list" where
  "SaveRepository_range drv [] b = (None, [])"
| "SaveRepository_range drv (be # rest) b =
     (case be_SaveRepository drv be b of
        (Some err, be') \<Rightarrow> (Some err, be' # rest)
      | (None, be') \<Rightarrow>
          (case SaveRepository_range drv rest b of (r, rest') \<Rightarrow> (r, be' # rest')))"

definition SaveRepository ::
  "'s backend_ops \<Rightarrow> 's BackendManager \<Rightarrow> bytes \<Rightarrow> error option \<times> 's BackendManager" where
  "SaveRepository drv backend b =
     (case SaveRepository_range drv (Backends backend) b of
        (r, bs) \<Rightarrow> (r, backend\<lparr>Backends := bs\<rparr>))"

subsection \<open>StoreChunk: shards go round the backends\<close>

text \<open>
  A call either returns or panics (an index out of range, a slice out of bounds, a nil
  pointer, an explicit \<open>panic\<close>).
\<close>

datatype 'a outcome = Returns 'a | Panics

text \<open>
  The body of the \<open>for i, data := range *chunk.Data\<close> loop: the cursor is incremented,
  reset to 0 when \<open>lastUsedBackend+1 > len(Backends)\<close>, and the shard is stored on
  \<open>Backends[lastUsedBackend]\<close>, which panics when the index is out of range. The
  first store that fails ends the loop.
\<close>

fun StoreChunk_range ::
  "'s backend_ops \<Rightarrow> Chunk \<Rightarrow> nat \<Rightarrow> bytes list \<Rightarrow> 's BackendManager
     \<Rightarrow> (error option \<times> 's BackendManager) outcome" where
  "StoreChunk_range drv chunk i [] backend = Returns (None, backend)"
| "StoreChunk_range drv chunk i (data # rest) backend =
     (let c = lastUsedBackend backend + 1;
          c = (if c + 1 > int (length (Backends backend)) then 0 else c)
      in if c < 0 \<or> int (length (Backends backend)) \<le> c then Panics
         else
           (case be_StoreChunk drv (Backends backend ! nat c) (ShaSum chunk) (of_nat i)
                   (DataParts chunk) data of
              (Inl err, be') \<Rightarrow>
                Returns (Some err,
                  backend\<lparr>Backends := (Backends backend)[nat c := be'], lastUsedBackend := c\<rparr>)
            | (Inr n, be') \<Rightarrow>
                StoreChunk_range drv chunk (Suc i) rest
                  (backend\<lparr>Backends := (Backends backend)[nat c := be'], lastUsedBackend := c\<rparr>)))"

definition StoreChunk ::
  "'s backend_ops \<Rightarrow> 's BackendManager \<Rightarrow> Chunk
     \<Rightarrow> ((error + go_uint64) \<times> 's BackendManager) outcome" where
  "StoreChunk drv backend chunk =
     (case StoreChunk_range drv chunk 0 (Data chunk) backend of
        Panics \<Rightarrow> Panics
      | Returns (Some err, backend') \<Rightarrow> Returns (Inl err, backend')
      | Returns (None, backend') \<Rightarrow> Returns (Inr (word_of_int (Size chunk)), backend'))"

section \<open>The Dropbox backend (storage_dropbox.go)\<close>

text \<open>
  The Dropbox client is a package the program imports. Its state (the remote store as
  the client sees it) is \<open>'d\<close>; the calls the backend makes are the fields of
  \<open>dropbox_api\<close>, each returning the new state. \<open>Entry.Bytes\<close> is an \<open>int64\<close>.
  \<open>UploadByChunk\<close> returns a pointer and an error, either of which may be nil.
  \<open>filepath.Join\<close> and \<open>SubDirForChunk\<close> (whose source is not among the files) are
  taken as they come.
\<close>

record Entry =
  Bytes :: int

record 'd dropbox_api =
  fp_Join :: "string \<Rightarrow> string \<Rightarrow> string"
  SubDirForChunk :: "string \<Rightarrow> string"
  db_CreateFolder :: "string \<Rightarrow> 'd \<Rightarrow> (string + Entry) \<times> 'd"
  db_Metadata :: "string \<Rightarrow> 'd \<Rightarrow> (string + Entry) \<times> 'd"
  db_UploadByChunk ::
    "bytes \<Rightarrow> int \<Rightarrow> string \<Rightarrow> bool \<Rightarrow> string \<Rightarrow> 'd \<Rightarrow> (Entry option \<times> string option) \<times> 'd"

record 'd StorageDropbox =
  chunkPath :: string
  snapshotPath :: string
  repositoryPath :: string
  db :: 'd

text \<open>\<open>strconv.FormatUint(n, 10)\<close>: the decimal digits of \<open>n\<close>.\<close>

fun FormatUint :: "nat \<Rightarrow> string" where
  "FormatUint n =
     (if n < 10 then [''0123456789'' ! n]
      else FormatUint (n div 10) @ [''0123456789'' ! (n mod 10)])"

definition chunkFileName :: "'d dropbox_api \<Rightarrow> 'd StorageDropbox \<Rightarrow> string \<Rightarrow> go_uint \<Rightarrow> go_uint \<Rightarrow> string" where
  "chunkFileName api backend shasum part totalParts =
     fp_Join api (fp_Join api (chunkPath backend) (SubDirForChunk api shasum))
       (shasum @ ''.'' @ FormatUint (unat part) @ ''_'' @ FormatUint (unat totalParts))"

definition Dropbox_StoreChunk ::
  "'d dropbox_api \<Rightarrow> 'd StorageDropbox \<Rightarrow> string \<Rightarrow> go_uint \<Rightarrow> go_uint \<Rightarrow> bytes
     \<Rightarrow> ((error + go_uint64) \<times> 'd StorageDropbox) outcome" where
  "Dropbox_StoreChunk api backend shasum part totalParts data =
     (let path = fp_Join api (chunkPath backend) (SubDirForChunk api shasum);
          d1 = snd (db_CreateFolder api path (db backend));
          fileName = fp_Join api path
             (shasum @ ''.'' @ FormatUint (unat part) @ ''_'' @ FormatUint (unat totalParts));
          (found, d2) = db_Metadata api fileName d1
      in if (case found of Inl err \<Rightarrow> False | Inr entry \<Rightarrow> Bytes entry = int (length data))
         then Returns (Inr 0, backend\<lparr>db := d2\<rparr>)
         else
           (case db_UploadByChunk api data (int (length data)) fileName True [] d2 of
              ((None, err), d3) \<Rightarrow> Panics
            | ((Some entry, Some err), d3) \<Rightarrow> Returns (Inl (External err), backend\<lparr>db := d3\<rparr>)
            | ((Some entry, None), d3) \<Rightarrow>
                Returns (Inr (word_of_int (Bytes entry)), backend\<lparr>db := d3\<rparr>)))"

section \<open>The store command (package main)\<close>

record 's Repository =
  Backend :: "'s BackendManager"
  Password :: string

record CmdStore =
  Description :: string
  Compression :: string
  Encryption :: string
  FailureTolerance :: go_uint

text \<open>
  \<open>CmdStore.store\<close>. \<open>os.Getwd\<close> has been called and its result is \<open>Getwd\<close>;
  \<open>snapshot.Add\<close>, whose source is not among the files, is the parameter \<open>Add\<close>: it
  streams the targets into chunks and stores them, which changes the world \<open>'w\<close> of
  everything outside the command, and it returns its error. The progress bars only print.
  The subtraction and the comparison are those of \<open>uint\<close>.
\<close>

definition store ::
  "(string \<Rightarrow> string) \<Rightarrow> error + string
     \<Rightarrow> (string \<Rightarrow> string list \<Rightarrow> 's Repository \<Rightarrow> bool \<Rightarrow> bool \<Rightarrow> go_uint \<Rightarrow> go_uint \<Rightarrow> 'w
           \<Rightarrow> error option \<times> 'w)
     \<Rightarrow> CmdStore \<Rightarrow> 's Repository \<Rightarrow> string list \<Rightarrow> 'w \<Rightarrow> error option \<times> 'w" where
  "store ToLower Getwd Add cmd repository targets w =
     (case Getwd of
        Inl gerr \<Rightarrow> (Some gerr, w)
      | Inr wd \<Rightarrow>
          if (of_nat (length (Backends (Backend repository))) :: go_uint) - FailureTolerance cmd \<le> 0
          then (Some ErrRedundancyAmount, w)
          else Add wd targets repository
                 (ToLower (Compression cmd) = ''gzip'') (ToLower (Encryption cmd) \<noteq> ''none'')
                 (of_nat (length (Backends (Backend repository))) - FailureTolerance cmd)
                 (FailureTolerance cmd) w)"

section \<open>Decoding (the read path)\<close>

text \<open>
  The functions of imported packages the read path calls: \<open>Decrypt\<close> (the program's own
  cipher wrapper, whose source is not among the files), gzip's \<open>NewReader\<close> followed by
  \<open>ReadAll\<close>, the hex form of \<open>sha256.Sum256\<close>, and the Reed-Solomon codec.
  \<open>Reconstruct\<close> works on the shard slice in place, so it returns the slice next to its
  error. A shard that is nil is \<open>None\<close>.
\<close>

record libs =
  Decrypt :: "bytes \<Rightarrow> string \<Rightarrow> string + bytes"
  Gunzip :: "bytes \<Rightarrow> string + bytes"
  Sum256hex :: "bytes \<Rightarrow> string"
  rs_New :: "int \<Rightarrow> int \<Rightarrow> string option"
  rs_Reconstruct :: "int \<Rightarrow> int \<Rightarrow> bytes option list \<Rightarrow> string option \<times> bytes option list"
  rs_Join :: "int \<Rightarrow> int \<Rightarrow> bytes option list \<Rightarrow> int \<Rightarrow> string + bytes"

definition decodeChunk :: "libs \<Rightarrow> 's Repository \<Rightarrow> Chunk \<Rightarrow> bytes \<Rightarrow> error + bytes" where
  "decodeChunk lib repository chunk finalData =
     (case (if Encrypted chunk = EncryptionAES
            then Decrypt lib finalData (Password repository) else Inr finalData) of
        Inl err \<Rightarrow> Inl (External err)
      | Inr finalData \<Rightarrow>
          (case (if Compressed chunk = CompressionGZip
                 then Gunzip lib finalData else Inr finalData) of
             Inl err \<Rightarrow> Inl (External err)
           | Inr finalData \<Rightarrow>
               (let shasum = Sum256hex lib finalData
                in if DecryptedShaSum chunk \<noteq> shasum
                   then Inl (CheckSumError ''sha256'' (DecryptedShaSum chunk) shasum)
                   else Inr finalData)))"

text \<open>
  The shard loop of \<open>loadChunk\<close>: \<open>i\<close> runs up to \<open>int(DataParts+ParityParts)\<close>;
  \<open>parsFound\<close> is a \<open>uint\<close>, \<open>parsMissing\<close> an \<open>int\<close>. A \<open>Reconstruct\<close> or \<open>Join\<close>
  that fails goes on to the next shard.
\<close>

function loadChunk_parts ::
  "'s backend_ops \<Rightarrow> libs \<Rightarrow> 's Repository \<Rightarrow> Chunk \<Rightarrow> nat \<Rightarrow> bytes option list \<Rightarrow> go_uint \<Rightarrow> int
     \<Rightarrow> error + bytes" where
  "loadChunk_parts drv lib repository chunk i pars parsFound parsMissing =
     (if int i < sint (DataParts chunk + ParityParts chunk) then
        (case LoadChunk drv (Backend repository) chunk (of_nat i) of
           Inl cerr \<Rightarrow>
             loadChunk_parts drv lib repository chunk (Suc i) (pars[i := None])
               parsFound (parsMissing + 1)
         | Inr b \<Rightarrow>
             if parsFound + 1 \<ge> DataParts chunk then
               (case (if parsMissing > 0
                      then rs_Reconstruct lib (sint (DataParts chunk)) (sint (ParityParts chunk))
                             (pars[i := Some b])
                      else (None, pars[i := Some b])) of
                  (Some err, pars') \<Rightarrow>
                    loadChunk_parts drv lib repository chunk (Suc i) pars' (parsFound + 1) parsMissing
                | (None, pars') \<Rightarrow>
                    (case rs_Join lib (sint (DataParts chunk)) (sint (ParityParts chunk)) pars'
                            (Size chunk) of
                       Inl err \<Rightarrow>
                         loadChunk_parts drv lib repository chunk (Suc i) pars' (parsFound + 1)
                           parsMissing
                     | Inr buf \<Rightarrow> decodeChunk lib repository chunk buf))
             else
               loadChunk_parts drv lib repository chunk (Suc i) (pars[i := Some b])
                 (parsFound + 1) parsMissing)
      else Inl (DataReconstructionError chunk parsFound (DataParts chunk - parsFound)))"
  by pat_completeness auto
termination
  by (relation "measure (\<lambda>(drv, lib, repository, chunk, i, pars, parsFound, parsMissing).
        nat (sint (DataParts chunk + ParityParts chunk)) - i)") auto

text \<open>
  \<open>loadChunk\<close>. \<open>make([][]byte, DataParts+ParityParts)\<close> panics when the length is out
  of range, which it is from \<open>2^63\<close> on (for smaller lengths the allocation is taken to
  succeed).
\<close>

definition loadChunk ::
  "'s backend_ops \<Rightarrow> libs \<Rightarrow> 's Repository \<Rightarrow> Chunk \<Rightarrow> (error + bytes) outcome" where
  "loadChunk drv lib repository chunk =
     (if ParityParts chunk > 0 then
        (case rs_New lib (sint (DataParts chunk)) (sint (ParityParts chunk)) of
           Some err \<Rightarrow> Returns (Inl (External err))
         | None \<Rightarrow>
             if sint (DataParts chunk + ParityParts chunk) < 0 then Panics
             else Returns (loadChunk_parts drv lib repository chunk 0
                    (replicate (unat (DataParts chunk + ParityParts chunk)) None) 0 0))
      else
        (case LoadChunk drv (Backend repository) chunk 0 of
           Inl err \<Rightarrow> Returns (Inl err)
         | Inr data \<Rightarrow> Returns (decodeChunk lib repository chunk data)))"

subsection \<open>Archives\<close>

fun indexOfChunk_range :: "Chunk list \<Rightarrow> nat \<Rightarrow> go_uint \<Rightarrow> error + nat" where
  "indexOfChunk_range [] i chunkNum = Inl (ChunkError chunkNum)"
| "indexOfChunk_range (chunk # rest) i chunkNum =
     (if Num chunk = chunkNum then Inr i else indexOfChunk_range rest (Suc i) chunkNum)"

definition indexOfChunk :: "ItemData \<Rightarrow> go_uint \<Rightarrow> error + nat" where
  "indexOfChunk arc chunkNum = indexOfChunk_range (Chunks arc) 0 chunkNum"

function chunkForOffset_loop :: "ItemData \<Rightarrow> int \<Rightarrow> nat \<Rightarrow> int \<Rightarrow> error + (go_uint \<times> int)" where
  "chunkForOffset_loop arc offset i sz =
     (if i < length (Chunks arc) then
        (case indexOfChunk arc (of_nat i) of
           Inl err \<Rightarrow> Inl (SeekError offset)
         | Inr idx \<Rightarrow>
             (let chunk = Chunks arc ! idx
              in if sz + OriginalSize chunk > offset
                 then Inr (Num chunk, offset - sz)
                 else chunkForOffset_loop arc offset (Suc i) (sz + OriginalSize chunk)))
      else Inl EOF)"
  by pat_completeness auto
termination
  by (relation "measure (\<lambda>(arc, offset, i, sz). length (Chunks arc) - i)") auto

definition chunkForOffset :: "ItemData \<Rightarrow> int \<Rightarrow> error + (go_uint \<times> int)" where
  "chunkForOffset arc offset = chunkForOffset_loop arc offset 0 0"

text \<open>
  The chunk cache is a process-wide map from \<open>ShaSum\<close> to plaintext; the functions that
  use it take it and return it. The mutex around it and the read-ahead that
  \<open>ReadArchive\<close> starts in the background as it returns are not modelled: a call runs
  alone, from an unlocked mutex.
\<close>

type_synonym cache = "string \<rightharpoonup> bytes"

definition readArchiveChunk ::
  "'s backend_ops \<Rightarrow> libs \<Rightarrow> 's Repository \<Rightarrow> ItemData \<Rightarrow> go_uint \<Rightarrow> cache
     \<Rightarrow> ((bytes \<times> error option) \<times> cache) outcome" where
  "readArchiveChunk drv lib repository arc chunkNum cache =
     (case indexOfChunk arc chunkNum of
        Inl err \<Rightarrow> Returns (([], Some err), cache)
      | Inr idx \<Rightarrow>
          (let chunk = Chunks arc ! idx
           in case cache (ShaSum chunk) of
                Some cacheData \<Rightarrow> Returns (([] @ cacheData, None), cache)
              | None \<Rightarrow>
                  (case loadChunk drv lib repository chunk of
                     Panics \<Rightarrow> Panics
                   | Returns (Inl err) \<Rightarrow> Returns (([], Some err), cache)
                   | Returns (Inr finalData) \<Rightarrow>
                       Returns (([] @ finalData, None), cache(ShaSum chunk \<mapsto> finalData)))))"

text \<open>
  The \<open>for len(*dat) < size\<close> loop of \<open>ReadArchive\<close>. It panics when the chunk cannot be
  read or is empty, when \<open>d[internalOffset:]\<close> is out of bounds, and when nothing is
  left of the chunk after the offset.
\<close>

function ReadArchive_loop ::
  "'s backend_ops \<Rightarrow> libs \<Rightarrow> 's Repository \<Rightarrow> ItemData \<Rightarrow> int \<Rightarrow> bytes \<Rightarrow> int \<Rightarrow> go_uint \<Rightarrow> cache
     \<Rightarrow> (bytes \<times> cache) outcome" where
  "ReadArchive_loop drv lib repository arc sz dat internalOffset neededPart cache =
     (if int (length dat) < sz then
        (case readArchiveChunk drv lib repository arc neededPart cache of
           Panics \<Rightarrow> Panics
         | Returns ((b, err), cache') \<Rightarrow>
             if err \<noteq> None \<or> length b = 0 then Panics
             else if internalOffset < 0 \<or> int (length b) < internalOffset then Panics
             else
               (let d = drop (nat internalOffset) b
                in if length d = 0 then Panics
                   else
                     ReadArchive_loop drv lib repository arc sz
                       (if int (length d) + int (length dat) > sz
                        then dat @ take (nat (sz - int (length dat))) d
                        else dat @ d)
                       0 (neededPart + 1) cache'))
      else Returns (dat, cache))"
  by pat_completeness auto
termination
  by (relation "measure (\<lambda>(drv, lib, repository, arc, sz, dat, internalOffset, neededPart, cache).
        nat (sz - int (length dat)))") auto

definition ReadArchive ::
  "'s backend_ops \<Rightarrow> libs \<Rightarrow> 's Repository \<Rightarrow> ItemData \<Rightarrow> int \<Rightarrow> int \<Rightarrow> cache
     \<Rightarrow> ((bytes \<times> error option) \<times> cache) outcome" where
  "ReadArchive drv lib repository arc offset sz cache =
     (if Type arc = File then
        (case chunkForOffset arc offset of
           Inl err \<Rightarrow> Returns (([], Some err), cache)
         | Inr (neededPart, internalOffset) \<Rightarrow>
             (case ReadArchive_loop drv lib repository arc sz [] internalOffset neededPart cache of
                Panics \<Rightarrow> Panics
              | Returns (dat, cache') \<Rightarrow> Returns ((dat, None), cache')))
      else Returns (([], None), cache))"

text \<open>
  Modelled from the spec: the declaration of \<open>Stats\<close> is not among the sources; these are
  the counters \<open>DecodeArchiveData\<close> updates, each a \<open>uint64\<close>.
\<close>

record Stats =
  Files :: go_uint64
  StatSize :: go_uint64
  StorageSize :: go_uint64

function DecodeArchiveData_loop ::
  "'s backend_ops \<Rightarrow> libs \<Rightarrow> 's Repository \<Rightarrow> ItemData \<Rightarrow> nat \<Rightarrow> bytes \<Rightarrow> Stats \<Rightarrow> cache
     \<Rightarrow> ((bytes \<times> Stats \<times> error option) \<times> cache) outcome" where
  "DecodeArchiveData_loop drv lib repository arc i dat stats cache =
     (if i < length (Chunks arc) then
        (case indexOfChunk arc (of_nat i) of
           Inl err \<Rightarrow> Returns ((dat, stats, Some err), cache)
         | Inr idx \<Rightarrow>
             (let chunk = Chunks arc ! idx
              in case cache (ShaSum chunk) of
                   Some cacheData \<Rightarrow>
                     DecodeArchiveData_loop drv lib repository arc (Suc i) (dat @ cacheData)
                       (stats\<lparr>StatSize := StatSize stats + of_nat (length (dat @ cacheData)),
                              StorageSize := StorageSize stats + of_nat (length (dat @ cacheData))\<rparr>)
                       cache
                 | None \<Rightarrow>
                     (case loadChunk drv lib repository chunk of
                        Panics \<Rightarrow> Panics
                      | Returns (Inl err) \<Rightarrow> Returns ((dat, stats, Some err), cache)
                      | Returns (Inr finalData) \<Rightarrow>
                          DecodeArchiveData_loop drv lib repository arc (Suc i) (dat @ finalData)
                            (stats\<lparr>StatSize := StatSize stats + of_nat (length (dat @ finalData)),
                                   StorageSize := StorageSize stats + of_nat (length (dat @ finalData))\<rparr>)
                            (cache(ShaSum chunk \<mapsto> finalData)))))
      else Returns ((dat, stats\<lparr>Files := Files stats + 1\<rparr>, None), cache))"
  by pat_completeness auto
termination
  by (relation "measure (\<lambda>(drv, lib, repository, arc, i, dat, stats, cache).
        length (Chunks arc) - i)") auto

definition DecodeArchiveData ::
  "'s backend_ops \<Rightarrow> libs \<Rightarrow> 's Repository \<Rightarrow> ItemData \<Rightarrow> cache
     \<Rightarrow> ((bytes \<times> Stats \<times> error option) \<times> cache) outcome" where
  "DecodeArchiveData drv lib repository arc cache =
     (if Type arc = File
      then DecodeArchiveData_loop drv lib repository arc 0 []
             \<lparr>Files = 0, StatSize = 0, StorageSize = 0\<rparr> cache
      else Returns (([], \<lparr>Files = 0, StatSize = 0, StorageSize = 0\<rparr>, None), cache))"

section \<open>Auxiliary definitions\<close>

text \<open>
  The first element of a list on which \<open>f\<close> succeeds, and the run of a fallible update
  \<open>f\<close> along a list up to its first failure: the shapes of the manager's loops, used to
  state what they compute.
\<close>

definition first_success :: "('s \<Rightarrow> error + bytes) \<Rightarrow> error \<Rightarrow> 's list \<Rightarrow> error + bytes" where
  "first_success f e bs = (case find (\<lambda>be. \<not> isl (f be)) bs of None \<Rightarrow> Inl e | Some be \<Rightarrow> f be)"

fun save_all :: "('s \<Rightarrow> error option \<times> 's) \<Rightarrow> 's list \<Rightarrow> error option \<times> 's list" where
  "save_all f [] = (None, [])"
| "save_all f (be # rest) =
     (case f be of
        (Some err, be') \<Rightarrow> (Some err, be' # rest)
      | (None, be') \<Rightarrow> (case save_all f rest of (r, rest') \<Rightarrow> (r, be' # rest')))"

subsection \<open>A backend in memory\<close>

text \<open>
  An implementation of the backend contract to run the model on: the blobs a backend
  holds, newest first, and whether it can be reached. Every operation on a backend that
  cannot be reached fails.
\<close>

datatype blob = ShardBlob string go_uint go_uint | SnapshotBlob string | RepositoryBlob

record mem_backend =
  online :: bool
  blobs :: "(blob \<times> bytes) list"

definition mem_load :: "mem_backend \<Rightarrow> blob \<Rightarrow> error + bytes" where
  "mem_load s k =
     (if online s
      then (case map_of (blobs s) k of None \<Rightarrow> Inl (External ''not found'') | Some b \<Rightarrow> Inr b)
      else Inl (External ''offline''))"

definition mem_save :: "mem_backend \<Rightarrow> blob \<Rightarrow> bytes \<Rightarrow> error option \<times> mem_backend" where
  "mem_save s k b =
     (if online s then (None, s\<lparr>blobs := (k, b) # blobs s\<rparr>) else (Some (External ''offline''), s))"

definition mem_ops :: "mem_backend backend_ops" where
  "mem_ops =
     \<lparr>be_LoadChunk = (\<lambda>s sha part total. mem_load s (ShardBlob sha part total)),
      be_StoreChunk = (\<lambda>s sha part total data.
         case mem_save s (ShardBlob sha part total) data of
           (None, s') \<Rightarrow> (Inr (of_nat (length data)), s')
         | (Some err, s') \<Rightarrow> (Inl err, s')),
      be_LoadSnapshot = (\<lambda>s ident. mem_load s (SnapshotBlob ident)),
      be_SaveSnapshot = (\<lambda>s ident b. mem_save s (SnapshotBlob ident) b),
      be_InitRepository = (\<lambda>s. if online s then (None, s) else (Some ErrRepositoryExists, s)),
      be_LoadRepository = (\<lambda>s. mem_load s RepositoryBlob),
      be_SaveRepository = (\<lambda>s b. mem_save s RepositoryBlob b)\<rparr>"

definition be_on :: "(blob \<times> bytes) list \<Rightarrow> mem_backend" where
  "be_on bl = \<lparr>online = True, blobs = bl\<rparr>"

definition be_off :: "(blob \<times> bytes) list \<Rightarrow> mem_backend" where
  "be_off bl = \<lparr>online = False, blobs = bl\<rparr>"

definition chunk0 :: Chunk where
  "chunk0 = \<lparr>Data = [], DataParts = 1, ParityParts = 0, OriginalSize = 2, Size = 2,
     DecryptedShaSum = ''ab'', ShaSum = ''ab'', Encrypted = EncryptionNone,
     Compressed = CompressionNone, Num = 0\<rparr>"

subsection \<open>A Dropbox client and imported packages to run the model on\<close>

text \<open>
  A client whose remote store is a list of files, newest first, with paths joined by a
  slash; and stand-ins for the cipher, gzip, the hash and the codec (a \<open>(1, p)\<close> code
  that keeps a copy of the data in every shard), small enough to evaluate.
\<close>

definition mem_dropbox :: "(string \<times> bytes) list dropbox_api" where
  "mem_dropbox =
     \<lparr>fp_Join = (\<lambda>a b. a @ ''/'' @ b),
      SubDirForChunk = take 2,
      db_CreateFolder = (\<lambda>path d. (Inr \<lparr>Bytes = 0\<rparr>, d)),
      db_Metadata = (\<lambda>path d.
         (case map_of d path of None \<Rightarrow> Inl ''not found''
                              | Some b \<Rightarrow> Inr \<lparr>Bytes = int (length b)\<rparr>, d)),
      db_UploadByChunk = (\<lambda>data n path overwrite rev d.
         ((Some \<lparr>Bytes = n\<rparr>, None), (path, data) # d))\<rparr>"

definition dropbox0 :: "(string \<times> bytes) list \<Rightarrow> (string \<times> bytes) list StorageDropbox" where
  "dropbox0 files = \<lparr>chunkPath = ''/r/chunks'', snapshotPath = ''/r/snapshots'',
     repositoryPath = ''/r/repository.knox'', db = files\<rparr>"

definition toy_libs :: libs where
  "toy_libs =
     \<lparr>Decrypt = (\<lambda>b pw. if pw = ''secret'' then Inr (rev b) else Inl ''wrong password''),
      Gunzip = (\<lambda>b. case b of [] \<Rightarrow> Inl ''unexpected EOF'' | x # xs \<Rightarrow> Inr xs),
      Sum256hex = map (\<lambda>w. ''0123456789abcdef'' ! (unat w mod 16)),
      rs_New = (\<lambda>d p. if d = 1 \<and> 0 < p then None else Some ''invalid shard number''),
      rs_Reconstruct = (\<lambda>d p shards.
         case find (\<lambda>s. s \<noteq> None) shards of
           None \<Rightarrow> (Some ''too few shards given'', shards)
         | Some s \<Rightarrow> (None, map (\<lambda>x. s) shards)),
      rs_Join = (\<lambda>d p shards n.
         case shards of
           Some s # rest \<Rightarrow> if n \<le> int (length s) then Inr (take (nat n) s) else Inl ''short data''
         | _ \<Rightarrow> Inl ''reconstruction required'')\<rparr>"

definition repo0 :: "mem_backend list \<Rightarrow> mem_backend Repository" where
  "repo0 bs = \<lparr>Backend = \<lparr>Backends = bs, lastUsedBackend = 0\<rparr>, Password = ''secret''\<rparr>"

section \<open>BackendManager: loads\<close>

lemma LoadChunk_range_find:
  "LoadChunk_range drv bs chunk part =
     first_success (\<lambda>be. be_LoadChunk drv be (ShaSum chunk) part (DataParts chunk))
       ErrLoadChunkFailed bs"
  by (induction bs) (auto simp: first_success_def split: sum.splits)

lemma LoadSnapshot_range_find:
  "LoadSnapshot_range drv bs ident =
     first_success (\<lambda>be. be_LoadSnapshot drv be ident) ErrLoadSnapshotFailed bs"
  by (induction bs) (auto simp: first_success_def split: sum.splits)

lemma LoadRepository_range_find:
  "LoadRepository_range drv bs = first_success (be_LoadRepository drv) ErrLoadRepositoryFailed bs"
  by (induction bs) (auto simp: first_success_def split: sum.splits)

lemma first_success_prefix:
  "\<forall>x \<in> set pre. isl (f x) \<Longrightarrow> f be = Inr b \<Longrightarrow> first_success f e (pre @ be # post) = Inr b"
  by (induction pre) (auto simp: first_success_def)

lemma first_success_fails_iff:
  "isl (first_success f e bs) \<longleftrightarrow> (\<forall>be \<in> set bs. isl (f be))"
  by (induction bs) (auto simp: first_success_def)

lemma first_success_error:
  "isl (first_success f e bs) \<Longrightarrow> first_success f e bs = Inl e"
  by (induction bs) (auto simp: first_success_def split: if_splits)

lemmas first_success_facts = first_success_prefix first_success_fails_iff first_success_error

lemmas Load_first_success =
  LoadChunk_def LoadChunk_range_find LoadSnapshot_def LoadSnapshot_range_find
  LoadRepository_def LoadRepository_range_find

text \<open>
  C6. \<open>LoadChunk\<close>, \<open>LoadSnapshot\<close> and \<open>LoadRepository\<close> of the manager return the answer
  of the first backend, in list order, whose load succeeds: if the backends before
  \<open>be\<close> all fail and \<open>be\<close> answers \<open>b\<close>, the result is \<open>b\<close>. They fail exactly when the
  load fails on every backend, and then with \<open>ErrLoadChunkFailed\<close>,
  \<open>ErrLoadSnapshotFailed\<close> and \<open>ErrLoadRepositoryFailed\<close> respectively.
\<close>

theorem loads_first_success:
  fixes drv :: "'s backend_ops" and backend :: "'s BackendManager"
    and chunk :: Chunk and part :: go_uint and ident :: string
  defines "bs \<equiv> Backends backend"
  defines "lc \<equiv> \<lambda>be. be_LoadChunk drv be (ShaSum chunk) part (DataParts chunk)"
  defines "ls \<equiv> \<lambda>be. be_LoadSnapshot drv be ident"
  defines "lr \<equiv> be_LoadRepository drv"
  shows
  "((\<forall>pre be post b. bs = pre @ be # post \<and> (\<forall>x \<in> set pre. isl (lc x)) \<and> lc be = Inr b
        \<longrightarrow> LoadChunk drv backend chunk part = Inr b)
    \<and> (isl (LoadChunk drv backend chunk part) \<longleftrightarrow> (\<forall>be \<in> set bs. isl (lc be)))
    \<and> (isl (LoadChunk drv backend chunk part)
         \<longrightarrow> LoadChunk drv backend chunk part = Inl ErrLoadChunkFailed))
   \<and> ((\<forall>pre be post b. bs = pre @ be # post \<and> (\<forall>x \<in> set pre. isl (ls x)) \<and> ls be = Inr b
        \<longrightarrow> LoadSnapshot drv backend ident = Inr b)
    \<and> (isl (LoadSnapshot drv backend ident) \<longleftrightarrow> (\<forall>be \<in> set bs. isl (ls be)))
    \<and> (isl (LoadSnapshot drv backend ident)
         \<longrightarrow> LoadSnapshot drv backend ident = Inl ErrLoadSnapshotFailed))
   \<and> ((\<forall>pre be post b. bs = pre @ be # post \<and> (\<forall>x \<in> set pre. isl (lr x)) \<and> lr be = Inr b
        \<longrightarrow> LoadRepository drv backend = Inr b)
    \<and> (isl (LoadRepository drv backend) \<longleftrightarrow> (\<forall>be \<in> set bs. isl (lr be)))
    \<and> (isl (LoadRepository drv backend)
         \<longrightarrow> LoadRepository drv backend = Inl ErrLoadRepositoryFailed))"
  unfolding Load_first_success bs_def lc_def ls_def lr_def
  by (intro conjI allI impI; (elim conjE)?; simp add: first_success_facts)

theorem loads_first_success_witness:
  "isl (be_LoadChunk mem_ops (be_off [(ShardBlob ''ab'' 0 1, [7])]) ''ab'' 0 1)
   \<and> be_LoadChunk mem_ops (be_on [(ShardBlob ''ab'' 0 1, [1, 2])]) ''ab'' 0 1 = Inr [1, 2]
   \<and> LoadChunk mem_ops
       \<lparr>Backends = [be_off [(ShardBlob ''ab'' 0 1, [7])]] @ be_on [(ShardBlob ''ab'' 0 1, [1, 2])]
                     # [be_on [(ShardBlob ''ab'' 0 1, [9])]],
        lastUsedBackend = 0\<rparr> chunk0 0 = Inr [1, 2]
   \<and> LoadSnapshot mem_ops \<lparr>Backends = [be_off [], be_off []], lastUsedBackend = 0\<rparr> ''s1''
       = Inl ErrLoadSnapshotFailed"
proof -
  let ?a = "be_off [(ShardBlob ''ab'' 0 1, [7])]"
  let ?b = "be_on [(ShardBlob ''ab'' 0 1, [1, 2])]"
  let ?c = "be_on [(ShardBlob ''ab'' 0 1, [9])]"
  let ?m = "\<lparr>Backends = [?a] @ ?b # [?c], lastUsedBackend = 0\<rparr>"
  let ?n = "\<lparr>Backends = [be_off [], be_off []], lastUsedBackend = 0\<rparr>"
  have h1: "isl (be_LoadChunk mem_ops ?a ''ab'' 0 1)"
    by (simp add: mem_ops_def mem_load_def be_off_def)
  have h2: "be_LoadChunk mem_ops ?b ''ab'' 0 1 = Inr [1, 2]"
    by (simp add: mem_ops_def mem_load_def be_on_def)
  have h3: "\<forall>be \<in> set (Backends ?n). isl (be_LoadSnapshot mem_ops be ''s1'')"
    by (simp add: mem_ops_def mem_load_def be_off_def)
  note t = loads_first_success [where drv = mem_ops and chunk = chunk0 and part = 0
      and backend = ?m]
  have c1: "LoadChunk mem_ops ?m chunk0 0 = Inr [1, 2]"
    using t [THEN conjunct1, THEN conjunct1, rule_format, of "[?a]" ?b "[?c]" "[1, 2]"] h1 h2
    by (simp add: chunk0_def)
  note u = loads_first_success [where drv = mem_ops and ident = "''s1''" and backend = ?n]
  have "isl (LoadSnapshot mem_ops ?n ''s1'')"
    using u [THEN conjunct2, THEN conjunct1, THEN conjunct2, THEN conjunct1] h3 by blast
  then have c2: "LoadSnapshot mem_ops ?n ''s1'' = Inl ErrLoadSnapshotFailed"
    using u [THEN conjunct2, THEN conjunct1, THEN conjunct2, THEN conjunct2] by blast
  from h1 h2 c1 c2 show ?thesis by blast
qed

section \<open>BackendManager: saves\<close>

lemma SaveSnapshot_range_save_all:
  "SaveSnapshot_range drv bs ident b = save_all (\<lambda>be. be_SaveSnapshot drv be ident b) bs"
  by (induction bs) (auto split: prod.splits option.splits)

lemma InitRepository_range_save_all:
  "InitRepository_range drv bs = save_all (be_InitRepository drv) bs"
  by (induction bs) (auto split: prod.splits option.splits)

lemma SaveRepository_range_save_all:
  "SaveRepository_range drv bs b = save_all (\<lambda>be. be_SaveRepository drv be b) bs"
  by (induction bs) (auto split: prod.splits option.splits)

lemma save_all_success:
  "\<forall>be \<in> set bs. fst (f be) = None \<Longrightarrow> save_all f bs = (None, map (snd \<circ> f) bs)"
  by (induction bs) (auto split: prod.splits option.splits)

lemma save_all_failure:
  "\<forall>x \<in> set pre. fst (f x) = None \<Longrightarrow> fst (f be) = Some e
     \<Longrightarrow> save_all f (pre @ be # post) = (Some e, map (snd \<circ> f) pre @ snd (f be) # post)"
  by (induction pre) (auto split: prod.splits option.splits)

lemma save_all_ok_iff:
  "fst (save_all f bs) = None \<longleftrightarrow> (\<forall>be \<in> set bs. fst (f be) = None)"
  by (induction bs) (auto split: prod.splits option.splits)

lemma fan_out_spec:
  assumes run: "\<And>bs. run bs = save_all f bs"
  shows "(\<forall>pre be post e. bs = pre @ be # post \<and> (\<forall>x \<in> set pre. fst (f x) = None) \<and> fst (f be) = Some e
            \<longrightarrow> run bs = (Some e, map (snd \<circ> f) pre @ snd (f be) # post))
         \<and> ((\<forall>be \<in> set bs. fst (f be) = None) \<longrightarrow> run bs = (None, map (snd \<circ> f) bs))
         \<and> (fst (run bs) = None \<longleftrightarrow> (\<forall>be \<in> set bs. fst (f be) = None))"
  unfolding run using save_all_success[of bs f] save_all_ok_iff[of f bs]
  by (auto simp: save_all_failure)

text \<open>
  C7. \<open>SaveSnapshot\<close>, \<open>SaveRepository\<close> and \<open>InitRepository\<close> of the manager call the
  backends one after the other in list order. If the backends before \<open>be\<close> all succeed and
  \<open>be\<close> fails with \<open>e\<close>, the call returns \<open>e\<close>, the backends up to and including \<open>be\<close> are
  in the state their operation left them in and the backends after \<open>be\<close> are untouched.
  If every backend succeeds the call succeeds and every backend has been written to.
  The call succeeds exactly when the operation succeeds on every backend.
\<close>

theorem saves_reach_every_backend:
  fixes drv :: "'s backend_ops" and backend :: "'s BackendManager" and ident :: string and b :: bytes
  defines "bs \<equiv> Backends backend"
  defines "ss \<equiv> \<lambda>be. be_SaveSnapshot drv be ident b"
  defines "sr \<equiv> \<lambda>be. be_SaveRepository drv be b"
  defines "ir \<equiv> be_InitRepository drv"
  shows
  "((\<forall>pre be post e. bs = pre @ be # post \<and> (\<forall>x \<in> set pre. fst (ss x) = None) \<and> fst (ss be) = Some e
        \<longrightarrow> SaveSnapshot drv backend ident b
              = (Some e, backend\<lparr>Backends := map (snd \<circ> ss) pre @ snd (ss be) # post\<rparr>))
    \<and> ((\<forall>be \<in> set bs. fst (ss be) = None)
        \<longrightarrow> SaveSnapshot drv backend ident b = (None, backend\<lparr>Backends := map (snd \<circ> ss) bs\<rparr>))
    \<and> (fst (SaveSnapshot drv backend ident b) = None \<longleftrightarrow> (\<forall>be \<in> set bs. fst (ss be) = None)))
   \<and> ((\<forall>pre be post e. bs = pre @ be # post \<and> (\<forall>x \<in> set pre. fst (sr x) = None) \<and> fst (sr be) = Some e
        \<longrightarrow> SaveRepository drv backend b
              = (Some e, backend\<lparr>Backends := map (snd \<circ> sr) pre @ snd (sr be) # post\<rparr>))
    \<and> ((\<forall>be \<in> set bs. fst (sr be) = None)
        \<longrightarrow> SaveRepository drv backend b = (None, backend\<lparr>Backends := map (snd \<circ> sr) bs\<rparr>))
    \<and> (fst (SaveRepository drv backend b) = None \<longleftrightarrow> (\<forall>be \<in> set bs. fst (sr be) = None)))
   \<and> ((\<forall>pre be post e. bs = pre @ be # post \<and> (\<forall>x \<in> set pre. fst (ir x) = None) \<and> fst (ir be) = Some e
        \<longrightarrow> InitRepository drv backend
              = (Some e, backend\<lparr>Backends := map (snd \<circ> ir) pre @ snd (ir be) # post\<rparr>))
    \<and> ((\<forall>be \<in> set bs. fst (ir be) = None)
        \<longrightarrow> InitRepository drv backend = (None, backend\<lparr>Backends := map (snd \<circ> ir) bs\<rparr>))
    \<and> (fst (InitRepository drv backend) = None \<longleftrightarrow> (\<forall>be \<in> set bs. fst (ir be) = None)))"
proof -
  have 1: "\<And>xs. SaveSnapshot_range drv xs ident b = save_all ss xs"
    by (simp add: SaveSnapshot_range_save_all ss_def)
  have 2: "\<And>xs. SaveRepository_range drv xs b = save_all sr xs"
    by (simp add: SaveRepository_range_save_all sr_def)
  have 3: "\<And>xs. InitRepository_range drv xs = save_all ir xs"
    by (simp add: InitRepository_range_save_all ir_def)
  note s1 = fan_out_spec[of "\<lambda>xs. SaveSnapshot_range drv xs ident b" ss bs, OF 1]
  note s2 = fan_out_spec[of "\<lambda>xs. SaveRepository_range drv xs b" sr bs, OF 2]
  note s3 = fan_out_spec[of "\<lambda>xs. InitRepository_range drv xs" ir bs, OF 3]
  have a: "SaveSnapshot drv backend ident b
             = (fst (SaveSnapshot_range drv bs ident b),
                backend\<lparr>Backends := snd (SaveSnapshot_range drv bs ident b)\<rparr>)"
    by (simp add: SaveSnapshot_def bs_def split: prod.splits)
  have b: "SaveRepository drv backend b
             = (fst (SaveRepository_range drv bs b),
                backend\<lparr>Backends := snd (SaveRepository_range drv bs b)\<rparr>)"
    by (simp add: SaveRepository_def bs_def split: prod.splits)
  have c: "InitRepository drv backend
             = (fst (InitRepository_range drv bs),
                backend\<lparr>Backends := snd (InitRepository_range drv bs)\<rparr>)"
    by (simp add: InitRepository_def bs_def split: prod.splits)
  have A: "(\<forall>pre be post e. bs = pre @ be # post \<and> (\<forall>x \<in> set pre. fst (ss x) = None) \<and> fst (ss be) = Some e
        \<longrightarrow> SaveSnapshot drv backend ident b
              = (Some e, backend\<lparr>Backends := map (snd \<circ> ss) pre @ snd (ss be) # post\<rparr>))
    \<and> ((\<forall>be \<in> set bs. fst (ss be) = None)
        \<longrightarrow> SaveSnapshot drv backend ident b = (None, backend\<lparr>Backends := map (snd \<circ> ss) bs\<rparr>))
    \<and> (fst (SaveSnapshot drv backend ident b) = None \<longleftrightarrow> (\<forall>be \<in> set bs. fst (ss be) = None))"
    unfolding a using s1 by simp
  have B: "(\<forall>pre be post e. bs = pre @ be # post \<and> (\<forall>x \<in> set pre. fst (sr x) = None) \<and> fst (sr be) = Some e
        \<longrightarrow> SaveRepository drv backend b
              = (Some e, backend\<lparr>Backends := map (snd \<circ> sr) pre @ snd (sr be) # post\<rparr>))
    \<and> ((\<forall>be \<in> set bs. fst (sr be) = None)
        \<longrightarrow> SaveRepository drv backend b = (None, backend\<lparr>Backends := map (snd \<circ> sr) bs\<rparr>))
    \<and> (fst (SaveRepository drv backend b) = None \<longleftrightarrow> (\<forall>be \<in> set bs. fst (sr be) = None))"
    unfolding b using s2 by simp
  have C: "(\<forall>pre be post e. bs = pre @ be # post \<and> (\<forall>x \<in> set pre. fst (ir x) = None) \<and> fst (ir be) = Some e
        \<longrightarrow> InitRepository drv backend
              = (Some e, backend\<lparr>Backends := map (snd \<circ> ir) pre @ snd (ir be) # post\<rparr>))
    \<and> ((\<forall>be \<in> set bs. fst (ir be) = None)
        \<longrightarrow> InitRepository drv backend = (None, backend\<lparr>Backends := map (snd \<circ> ir) bs\<rparr>))
    \<and> (fst (InitRepository drv backend) = None \<longleftrightarrow> (\<forall>be \<in> set bs. fst (ir be) = None))"
    unfolding c using s3 by simp
  from A B C show ?thesis by blast
qed

theorem saves_reach_every_backend_witness:
  "fst (be_SaveSnapshot mem_ops (be_on []) ''s1'' [4]) = None
   \<and> fst (be_SaveSnapshot mem_ops (be_off []) ''s1'' [4]) = Some (External ''offline'')
   \<and> SaveSnapshot mem_ops \<lparr>Backends = [be_on []] @ be_off [] # [be_on []], lastUsedBackend = 0\<rparr> ''s1'' [4]
       = (Some (External ''offline''),
          \<lparr>Backends = [be_on [(SnapshotBlob ''s1'', [4])], be_off [], be_on []], lastUsedBackend = 0\<rparr>)
   \<and> SaveRepository mem_ops \<lparr>Backends = [be_on [], be_on []], lastUsedBackend = 0\<rparr> [4]
       = (None, \<lparr>Backends = [be_on [(RepositoryBlob, [4])], be_on [(RepositoryBlob, [4])]],
                  lastUsedBackend = 0\<rparr>)"
proof -
  let ?m = "\<lparr>Backends = [be_on []] @ be_off [] # [be_on []], lastUsedBackend = 0\<rparr>"
  let ?n = "\<lparr>Backends = [be_on [], be_on []], lastUsedBackend = 0\<rparr>"
  have h1: "fst (be_SaveSnapshot mem_ops (be_on []) ''s1'' [4]) = None"
    by (simp add: mem_ops_def mem_save_def be_on_def)
  have h2: "fst (be_SaveSnapshot mem_ops (be_off []) ''s1'' [4]) = Some (External ''offline'')"
    by (simp add: mem_ops_def mem_save_def be_off_def)
  have h3: "\<forall>be \<in> set (Backends ?n). fst (be_SaveRepository mem_ops be [4]) = None"
    by (simp add: mem_ops_def mem_save_def be_on_def)
  note t = saves_reach_every_backend [where drv = mem_ops and ident = "''s1''" and b = "[4]"
      and backend = ?m]
  have c1: "SaveSnapshot mem_ops ?m ''s1'' [4]
       = (Some (External ''offline''),
          \<lparr>Backends = [be_on [(SnapshotBlob ''s1'', [4])], be_off [], be_on []], lastUsedBackend = 0\<rparr>)"
    using t [THEN conjunct1, THEN conjunct1, rule_format, of "[be_on []]" "be_off []" "[be_on []]"
        "External ''offline''"] h1 h2
    by (simp add: mem_ops_def mem_save_def be_on_def be_off_def)
  note u = saves_reach_every_backend [where drv = mem_ops and b = "[4]" and backend = ?n]
  have c2: "SaveRepository mem_ops ?n [4]
       = (None, \<lparr>Backends = [be_on [(RepositoryBlob, [4])], be_on [(RepositoryBlob, [4])]],
                  lastUsedBackend = 0\<rparr>)"
    using u [THEN conjunct2, THEN conjunct1, THEN conjunct2, THEN conjunct1] h3
    by (simp add: mem_ops_def mem_save_def be_on_def)
  from h1 h2 c1 c2 show ?thesis by blast
qed

text \<open>
  C10. On a manager with no backend, \<open>SaveSnapshot\<close>, \<open>SaveRepository\<close> and
  \<open>InitRepository\<close> succeed and leave the manager as it was, whatever the backend
  operations are (none is called); \<open>LoadChunk\<close>, \<open>LoadSnapshot\<close> and \<open>LoadRepository\<close>
  fail with \<open>ErrLoadChunkFailed\<close>, \<open>ErrLoadSnapshotFailed\<close> and \<open>ErrLoadRepositoryFailed\<close>.
\<close>

theorem empty_manager:
  "SaveSnapshot drv (backend\<lparr>Backends := []\<rparr>) ident b = (None, backend\<lparr>Backends := []\<rparr>)
   \<and> SaveRepository drv (backend\<lparr>Backends := []\<rparr>) b = (None, backend\<lparr>Backends := []\<rparr>)
   \<and> InitRepository drv (backend\<lparr>Backends := []\<rparr>) = (None, backend\<lparr>Backends := []\<rparr>)
   \<and> LoadChunk drv (backend\<lparr>Backends := []\<rparr>) chunk part = Inl ErrLoadChunkFailed
   \<and> LoadSnapshot drv (backend\<lparr>Backends := []\<rparr>) ident = Inl ErrLoadSnapshotFailed
   \<and> LoadRepository drv (backend\<lparr>Backends := []\<rparr>) = Inl ErrLoadRepositoryFailed"
  by (simp add: SaveSnapshot_def SaveRepository_def InitRepository_def LoadChunk_def
      LoadSnapshot_def LoadRepository_def)

section \<open>The store command\<close>

lemma word_minus_one_64: "(- 1 :: 64 word) = 18446744073709551615"
  by simp

text \<open>
  C4. The check before \<open>snapshot.Add\<close> is \<open>uint(len(Backends)) - FailureTolerance <= 0\<close>
  on unsigned values, which holds only when the two are equal. With three backends and a
  failure tolerance of four the difference wraps around, the command does not return
  \<open>ErrRedundancyAmount\<close> and calls \<open>snapshot.Add\<close> with \<open>2^64 - 1\<close> data parts and four
  parity parts.
\<close>

theorem store_tolerance_above_backends:
  "store ToLower (Inr wd) Add
     \<lparr>Description = [], Compression = ''none'', Encryption = ''aes'', FailureTolerance = 4\<rparr>
     \<lparr>Backend = \<lparr>Backends = [a, b, c], lastUsedBackend = 0\<rparr>, Password = pw\<rparr> targets w
   = Add wd targets \<lparr>Backend = \<lparr>Backends = [a, b, c], lastUsedBackend = 0\<rparr>, Password = pw\<rparr>
       (ToLower ''none'' = ''gzip'') (ToLower ''aes'' \<noteq> ''none'') 18446744073709551615 4 w"
  by (simp add: store_def, simp only: word_minus_one_64)

section \<open>decodeChunk\<close>

text \<open>
  C5. \<open>decodeChunk\<close> decrypts the payload with the repository password if and only if
  the chunk is marked \<open>EncryptionAES\<close>, then gunzips the result if and only if the chunk is
  marked \<open>CompressionGZip\<close>, and compares the hex SHA-256 of what it has then with
  \<open>DecryptedShaSum\<close>. It fails with \<open>CheckSumError "sha256" expected found\<close> exactly when
  both steps went through and the two differ, with \<open>expected\<close> the recorded and \<open>found\<close>
  the computed sum; it returns \<open>p\<close> exactly when both steps went through with result \<open>p\<close>
  and the sums agree.
\<close>

theorem decodeChunk_transform_and_check:
  fixes lib :: libs and repository :: "'s Repository" and chunk :: Chunk and payload :: bytes
  defines "decrypted \<equiv> \<lambda>d. if Encrypted chunk = EncryptionAES
                             then Decrypt lib payload (Password repository) = Inr d else d = payload"
  defines "unzipped \<equiv> \<lambda>d p. if Compressed chunk = CompressionGZip
                               then Gunzip lib d = Inr p else p = d"
  shows
  "(decodeChunk lib repository chunk payload = Inl (CheckSumError m e f)
      \<longleftrightarrow> (\<exists>d p. decrypted d \<and> unzipped d p \<and> Sum256hex lib p \<noteq> DecryptedShaSum chunk
                 \<and> m = ''sha256'' \<and> e = DecryptedShaSum chunk \<and> f = Sum256hex lib p))
   \<and> (decodeChunk lib repository chunk payload = Inr p
      \<longleftrightarrow> (\<exists>d. decrypted d \<and> unzipped d p \<and> Sum256hex lib p = DecryptedShaSum chunk))
   \<and> (\<forall>d p. decrypted d \<and> unzipped d p
        \<longrightarrow> decodeChunk lib repository chunk payload
              = (if Sum256hex lib p = DecryptedShaSum chunk then Inr p
                 else Inl (CheckSumError ''sha256'' (DecryptedShaSum chunk) (Sum256hex lib p))))"
proof -
  define dec where "dec = (if Encrypted chunk = EncryptionAES
                           then Decrypt lib payload (Password repository) else Inr payload)"
  define unz where "unz = (\<lambda>d. if Compressed chunk = CompressionGZip then Gunzip lib d else Inr d)"
  have D: "\<And>d. decrypted d \<longleftrightarrow> dec = Inr d"
    by (auto simp: decrypted_def dec_def)
  have U: "\<And>d p. unzipped d p \<longleftrightarrow> unz d = Inr p"
    by (auto simp: unzipped_def unz_def)
  have E: "decodeChunk lib repository chunk payload =
     (case dec of Inl err \<Rightarrow> Inl (External err)
      | Inr d \<Rightarrow> (case unz d of Inl err \<Rightarrow> Inl (External err)
          | Inr p \<Rightarrow> if DecryptedShaSum chunk \<noteq> Sum256hex lib p
                     then Inl (CheckSumError ''sha256'' (DecryptedShaSum chunk) (Sum256hex lib p))
                     else Inr p))"
    unfolding decodeChunk_def dec_def unz_def Let_def by (rule refl)
  show ?thesis
  proof (cases dec)
    case (Inl err)
    then show ?thesis unfolding D U E by simp
  next
    case (Inr d)
    note d = this
    show ?thesis
    proof (cases "unz d")
      case (Inl err)
      then show ?thesis unfolding D U E using d by simp
    next
      case (Inr q)
      then show ?thesis unfolding D U E using d by auto
    qed
  qed
qed

theorem decodeChunk_transform_and_check_witness:
  "decodeChunk toy_libs (repo0 []) (chunk0\<lparr>Encrypted := EncryptionAES, Compressed := CompressionGZip,
       DecryptedShaSum := ''21''\<rparr>) [1, 2, 3] = Inr [2, 1]
   \<and> decodeChunk toy_libs (repo0 []) (chunk0\<lparr>DecryptedShaSum := ''21''\<rparr>) [1, 2, 3]
       = Inl (CheckSumError ''sha256'' ''21'' ''123'')"
proof -
  let ?c = "chunk0\<lparr>Encrypted := EncryptionAES, Compressed := CompressionGZip, DecryptedShaSum := ''21''\<rparr>"
  let ?d = "chunk0\<lparr>DecryptedShaSum := ''21''\<rparr>"
  have 1: "decodeChunk toy_libs (repo0 []) ?c [1, 2, 3] = Inr [2, 1]"
    using decodeChunk_transform_and_check [where lib = toy_libs and repository = "repo0 []"
        and chunk = ?c and payload = "[1, 2, 3]" and p = "[2, 1]",
        THEN conjunct2, THEN conjunct1]
    by (simp add: toy_libs_def repo0_def chunk0_def)
  have 2: "decodeChunk toy_libs (repo0 []) ?d [1, 2, 3] = Inl (CheckSumError ''sha256'' ''21'' ''123'')"
    using decodeChunk_transform_and_check [where lib = toy_libs and repository = "repo0 []"
        and chunk = ?d and payload = "[1, 2, 3]" and m = "''sha256''" and e = "''21''" and f = "''123''",
        THEN conjunct1]
    by (simp add: toy_libs_def repo0_def chunk0_def)
  from 1 2 show ?thesis by blast
qed

section \<open>The Dropbox backend: StoreChunk\<close>

text \<open>
  C8. \<open>StoreChunk\<close> of the Dropbox backend first creates the chunk's folder and asks for
  the metadata of the target path \<open>chunkFileName\<close>. If that finds an entry whose byte
  length is the length of the data, the call returns a stored size of 0 and the client is
  in the state the metadata call left it in: nothing is uploaded. In every other case the
  data is uploaded to that same path, and the result is the result of the upload.
\<close>

theorem Dropbox_StoreChunk_dedup:
  fixes api :: "'d dropbox_api" and backend :: "'d StorageDropbox" and data :: bytes
    and shasum :: string and part :: go_uint and totalParts :: go_uint
  defines "fileName \<equiv> chunkFileName api backend shasum part totalParts"
  defines "d1 \<equiv> snd (db_CreateFolder api
                        (fp_Join api (chunkPath backend) (SubDirForChunk api shasum)) (db backend))"
  shows
  "(\<forall>entry d2. db_Metadata api fileName d1 = (Inr entry, d2) \<and> Bytes entry = int (length data)
       \<longrightarrow> Dropbox_StoreChunk api backend shasum part totalParts data
             = Returns (Inr 0, backend\<lparr>db := d2\<rparr>))
   \<and> (\<forall>found d2. db_Metadata api fileName d1 = (found, d2)
          \<and> \<not> (\<exists>entry. found = Inr entry \<and> Bytes entry = int (length data))
       \<longrightarrow> Dropbox_StoreChunk api backend shasum part totalParts data
             = (case db_UploadByChunk api data (int (length data)) fileName True [] d2 of
                  ((None, err), d3) \<Rightarrow> Panics
                | ((Some entry, Some err), d3) \<Rightarrow> Returns (Inl (External err), backend\<lparr>db := d3\<rparr>)
                | ((Some entry, None), d3) \<Rightarrow>
                    Returns (Inr (word_of_int (Bytes entry)), backend\<lparr>db := d3\<rparr>)))"
proof (intro conjI allI impI; elim conjE)
  fix entry d2
  assume m: "db_Metadata api fileName d1 = (Inr entry, d2)" and b: "Bytes entry = int (length data)"
  from m have m': "db_Metadata api
      (fp_Join api (fp_Join api (chunkPath backend) (SubDirForChunk api shasum))
         (shasum @ ''.'' @ FormatUint (unat part) @ ''_'' @ FormatUint (unat totalParts)))
      (snd (db_CreateFolder api (fp_Join api (chunkPath backend) (SubDirForChunk api shasum))
             (db backend))) = (Inr entry, d2)"
    by (simp add: fileName_def d1_def chunkFileName_def)
  show "Dropbox_StoreChunk api backend shasum part totalParts data = Returns (Inr 0, backend\<lparr>db := d2\<rparr>)"
    unfolding Dropbox_StoreChunk_def Let_def m' using b by simp
next
  fix found d2
  assume m: "db_Metadata api fileName d1 = (found, d2)"
    and n: "\<not> (\<exists>entry. found = Inr entry \<and> Bytes entry = int (length data))"
  from m have m': "db_Metadata api
      (fp_Join api (fp_Join api (chunkPath backend) (SubDirForChunk api shasum))
         (shasum @ ''.'' @ FormatUint (unat part) @ ''_'' @ FormatUint (unat totalParts)))
      (snd (db_CreateFolder api (fp_Join api (chunkPath backend) (SubDirForChunk api shasum))
             (db backend))) = (found, d2)"
    by (simp add: fileName_def d1_def chunkFileName_def)
  from n have c: "(case found of Inl err \<Rightarrow> False | Inr entry \<Rightarrow> Bytes entry = int (length data)) = False"
    by (cases found) auto
  show "Dropbox_StoreChunk api backend shasum part totalParts data
             = (case db_UploadByChunk api data (int (length data)) fileName True [] d2 of
                  ((None, err), d3) \<Rightarrow> Panics
                | ((Some entry, Some err), d3) \<Rightarrow> Returns (Inl (External err), backend\<lparr>db := d3\<rparr>)
                | ((Some entry, None), d3) \<Rightarrow>
                    Returns (Inr (word_of_int (Bytes entry)), backend\<lparr>db := d3\<rparr>))"
    unfolding Dropbox_StoreChunk_def Let_def m' fileName_def chunkFileName_def
    by (simp only: prod.case c if_False)
qed

theorem Dropbox_StoreChunk_dedup_witness:
  "Dropbox_StoreChunk mem_dropbox (dropbox0 [(''/r/chunks/ab/abcd.0_1'', [1, 2, 3])]) ''abcd'' 0 1 [4, 5, 6]
     = Returns (Inr 0, dropbox0 [(''/r/chunks/ab/abcd.0_1'', [1, 2, 3])])
   \<and> Dropbox_StoreChunk mem_dropbox (dropbox0 [(''/r/chunks/ab/abcd.0_1'', [1, 2, 3])]) ''abcd'' 0 1 [4, 5]
     = Returns (Inr 2, dropbox0 [(''/r/chunks/ab/abcd.0_1'', [4, 5]), (''/r/chunks/ab/abcd.0_1'', [1, 2, 3])])
   \<and> Dropbox_StoreChunk mem_dropbox (dropbox0 []) ''abcd'' 10 12 [4, 5]
     = Returns (Inr 2, dropbox0 [(''/r/chunks/ab/abcd.10_12'', [4, 5])])"
proof -
  let ?f = "[(''/r/chunks/ab/abcd.0_1'', [1, 2, 3 :: byte])]"
  have n: "chunkFileName mem_dropbox (dropbox0 fs) ''abcd'' 0 1 = ''/r/chunks/ab/abcd.0_1''" for fs
    by (simp add: chunkFileName_def mem_dropbox_def dropbox0_def)
  have n': "chunkFileName mem_dropbox (dropbox0 fs) ''abcd'' 10 12 = ''/r/chunks/ab/abcd.10_12''" for fs
    by (simp add: chunkFileName_def mem_dropbox_def dropbox0_def)
  have 1: "Dropbox_StoreChunk mem_dropbox (dropbox0 ?f) ''abcd'' 0 1 [4, 5, 6]
     = Returns (Inr 0, dropbox0 ?f)"
    using Dropbox_StoreChunk_dedup [where api = mem_dropbox and backend = "dropbox0 ?f"
        and shasum = "''abcd''" and part = 0 and totalParts = 1 and data = "[4, 5, 6]",
        THEN conjunct1, rule_format, of "\<lparr>Bytes = 3\<rparr>" ?f]
    unfolding n by (simp add: mem_dropbox_def dropbox0_def)
  have 2: "Dropbox_StoreChunk mem_dropbox (dropbox0 ?f) ''abcd'' 0 1 [4, 5]
     = Returns (Inr 2, dropbox0 ((''/r/chunks/ab/abcd.0_1'', [4, 5]) # ?f))"
    using Dropbox_StoreChunk_dedup [where api = mem_dropbox and backend = "dropbox0 ?f"
        and shasum = "''abcd''" and part = 0 and totalParts = 1 and data = "[4, 5]",
        THEN conjunct2, rule_format, of "Inr \<lparr>Bytes = 3\<rparr>" ?f]
    unfolding n by (simp add: mem_dropbox_def dropbox0_def)
  have 3: "Dropbox_StoreChunk mem_dropbox (dropbox0 []) ''abcd'' 10 12 [4, 5]
     = Returns (Inr 2, dropbox0 [(''/r/chunks/ab/abcd.10_12'', [4, 5])])"
    using Dropbox_StoreChunk_dedup [where api = mem_dropbox and backend = "dropbox0 []"
        and shasum = "''abcd''" and part = 10 and totalParts = 12 and data = "[4, 5]",
        THEN conjunct2, rule_format, of "Inl ''not found''" "[]"]
    unfolding n' by (simp add: mem_dropbox_def dropbox0_def)
  from 1 2 3 show ?thesis by simp
qed

end
